theory Spec2Isabelle
  imports Main "HOL-Library.Sublist"
begin

section \<open>Go values used by package ipapk\<close>

text \<open>
  The package reads a zip container and hands members to decoders of other packages.
  Byte slices and Go strings are both byte sequences, written \<open>string\<close> here.
  A Go \<open>error\<close> is either made by \<open>errors.New\<close> inside this package, or comes back
  from a collaborator (os, archive/zip, plist, androidbinary, png).
\<close>

type_synonym bytes = string

datatype error =
    ErrorsNew string
  | External string

abbreviation ManifestNotFound :: error where
  "ManifestNotFound \<equiv> ErrorsNew ''AndroidManifest.xml is not found''"

abbreviation PropertyListNotFound :: error where
  "PropertyListNotFound \<equiv> ErrorsNew ''not zip file, info.plist is not found''"

abbreviation IconNotFound :: error where
  "IconNotFound \<equiv> ErrorsNew ''Icon is not found''"

abbreviation UnknownPlatform :: error where
  "UnknownPlatform \<equiv> ErrorsNew ''unknown platform''"

text \<open>
  A call either returns or stops with a run-time panic: a nil pointer dereference, an
  index out of range or a failed type assertion in this package, or a panic raised inside
  a collaborator, which nothing in the package recovers.
\<close>

datatype panic =
    NilPointerDereference
  | IndexOutOfRange
  | InterfaceConversion
  | CollaboratorPanic string

datatype 'a outcome = Return 'a | Panic panic

text \<open>
  What a call does to its collaborators, in program order: every function of the model
  returns its result together with the list of these events.
\<close>

datatype event =
    OsOpen string
  | FileStat
  | ZipNewReader
  | Classified string
  | FilepathExt string
  | EntryOpen string
  | EntryReadAll string
  | BinaryXmlDecode
  | XmlDecode
  | PlistDecode
  | IconScan string
  | ApkOpenFile string
  | ApkIcon
  | ApkLabel
  | AaptDump string
  | PngRevert string
  | PngDecode
  | PngEncode

datatype image = Image bytes

text \<open>
  \<open>zip.File\<close>: its \<open>Name\<close>, and what \<open>Open()\<close> gives: an error, or a stream with
  the bytes \<open>ioutil.ReadAll\<close> collects and the error it ends with, if any.
\<close>

record stream =
  data :: bytes
  readErr :: "error option"

record zipFile =
  File_Name :: string
  File_Open :: "error + stream"

record fileInfo =
  stat_Name :: string
  stat_Size :: int

record osFile =
  file_Stat :: "error + fileInfo"
  zip_NewReader :: "error + zipFile list"

record apkPkg =
  pkg_Icon :: "nat \<Rightarrow> image option"
  pkg_Label :: string

subsection \<open>The structs of parser.go\<close>

record appInfo =
  Name :: string
  PackageName :: string
  Version :: string
  Build :: string
  Base64 :: string
  VersionName :: string
  VersionCode :: string
  SDKMinVersion :: int
  SDKTargetVersion :: int
  UsesPermissions :: "string list"
  Activities :: "string list"
  LanchActivity :: string
  Icon :: "image option"
  Size :: int
  IconFileName :: string

text \<open>\<open>new(appInfo)\<close>: every field at its zero value.\<close>

definition new_appInfo :: appInfo where
  "new_appInfo =
     \<lparr>Name = [], PackageName = [], Version = [], Build = [], Base64 = [],
      VersionName = [], VersionCode = [], SDKMinVersion = 0, SDKTargetVersion = 0,
      UsesPermissions = [], Activities = [], LanchActivity = [], Icon = None,
      Size = 0, IconFileName = []\<rparr>"

record intentFilter =
  action_Name :: string
  category_Name :: string

record activity =
  activity_Name :: string
  Exported :: bool
  Filter :: "intentFilter list"

record sdkVersion =
  sdk_Min :: int
  sdk_Target :: int

record androidManifest =
  Package :: string
  manifest_VersionName :: string
  manifest_VersionCode :: string
  SDKVersion :: sdkVersion
  manifest_UsesPermissions :: "string list"
  manifest_Activities :: "activity list"

text \<open>
  A value of type \<open>interface{}\<close> as the property-list decoder builds it; the nil
  interface is \<open>None\<close> of \<open>iface option\<close>.
\<close>

datatype iface =
    GoString string
  | GoSlice "iface list"
  | GoMap "(string \<times> iface) list"
  | GoInt int
  | GoBool bool

text \<open>
  \<open>CFBundleIcons\<close> has type \<open>map[string]map[string]interface{}\<close>. Reading a key that
  is missing (or any key of a nil map) gives the zero value, which is \<open>None\<close> here.
\<close>

record iosPlist =
  CFBundleName :: string
  CFBundleDisplayName :: string
  CFBundleVersion :: string
  CFBundleShortVersion :: string
  CFBundleIdentifier :: string
  CFBundleExecutable :: string
  CFBundleIcons :: "string \<rightharpoonup> (string \<rightharpoonup> iface)"

subsection \<open>The collaborators\<close>

text \<open>
  Everything the package calls outside itself, as functions of their inputs:
  the file system and zip reader, the binary-XML and XML decoders, the property-list
  decoder, the APK resource reader, the \<open>aapt dump badging\<close> process (its standard
  output; its error is dropped by the caller), the iOS PNG normaliser, and PNG decode,
  PNG encode and base64. The normaliser \<open>iospng.PngRevertOptimization\<close> either returns,
  with the bytes it wrote to its output buffer and its error, or panics on its input
  (it does so on some malformed PNG streams).
\<close>

record world =
  os_Open :: "string \<Rightarrow> error + osFile"
  androidbinary_NewXMLFile :: "bytes \<Rightarrow> error + bytes"
  xml_Decode :: "bytes \<Rightarrow> error + androidManifest"
  plist_Decode :: "bytes \<Rightarrow> error + iosPlist"
  apk_OpenFile :: "string \<Rightarrow> error + apkPkg"
  aapt_Output :: "string \<Rightarrow> bytes"
  iospng_PngRevertOptimization :: "stream \<Rightarrow> (bytes \<times> error option) outcome"
  png_Decode :: "bytes \<Rightarrow> error + image"
  png_Encode :: "image \<Rightarrow> bytes"
  base64_EncodeToString :: "bytes \<Rightarrow> string"

section \<open>Library functions on strings\<close>

text \<open>
  \<open>strings.HasPrefix\<close>, \<open>strings.Contains\<close> and \<open>filepath.Ext\<close> of the Go
  standard library, on byte strings. \<open>filepath.Ext\<close> walks back from the end of the
  path and stops at a path separator (the slash, as on Unix); the suffix from the last
  dot of the last element is the extension, and there is none when that element has no
  dot. The comparison with \<open>.apk\<close>, \<open>.ipa\<close> and \<open>.zip\<close> is exact, so case matters.
\<close>

fun strings_HasPrefix :: "string \<Rightarrow> string \<Rightarrow> bool" where
  "strings_HasPrefix s [] = True"
| "strings_HasPrefix [] (p # ps) = False"
| "strings_HasPrefix (c # cs) (p # ps) = (c = p \<and> strings_HasPrefix cs ps)"

fun strings_Contains :: "string \<Rightarrow> string \<Rightarrow> bool" where
  "strings_Contains [] substr = (substr = [])"
| "strings_Contains (c # cs) substr =
     (strings_HasPrefix (c # cs) substr \<or> strings_Contains cs substr)"

fun ext_scan :: "string \<Rightarrow> string \<Rightarrow> string" where
  "ext_scan [] acc = []"
| "ext_scan (c # cs) acc =
     (if c = CHR ''/'' then []
      else if c = CHR ''.'' then c # acc
      else ext_scan cs (c # acc))"

definition filepath_Ext :: "string \<Rightarrow> string" where
  "filepath_Ext path = ext_scan (rev path) []"

text \<open>
  \<open>strings.Split(s, sep)\<close> for a separator that is not empty (the package passes three
  literals): \<open>s\<close> is cut at every occurrence of \<open>sep\<close>, found from the left and not
  overlapping. \<open>cur\<close> holds the piece being read, reversed; \<open>skip\<close> counts the bytes of
  a separator still to pass over.
\<close>

fun genSplit :: "string \<Rightarrow> string \<Rightarrow> nat \<Rightarrow> string \<Rightarrow> string list" where
  "genSplit sep cur skip [] = [rev cur]"
| "genSplit sep cur skip (c # cs) =
     (if 0 < skip then genSplit sep cur (skip - 1) cs
      else if strings_HasPrefix (c # cs) sep then rev cur # genSplit sep [] (length sep - 1) cs
      else genSplit sep (c # cur) 0 cs)"

definition strings_Split :: "string \<Rightarrow> string \<Rightarrow> string list" where
  "strings_Split s sep = genSplit sep [] 0 s"

text \<open>
  \<open>reInfoPlist = regexp.MustCompile(`Payload/[^/]+/Info\.plist`)\<close> (parser.go, line 25).
  The pattern has no anchors, so \<open>MatchString\<close> looks for a match starting anywhere.
  A match at the start of \<open>s\<close> is \<open>Payload/\<close>, then one or more bytes other than
  \<open>/\<close>, then \<open>/Info.plist\<close>; since the segment must be followed by a slash, it is the
  whole run up to the next slash.
\<close>

definition reInfoPlist_matchAt :: "string \<Rightarrow> bool" where
  "reInfoPlist_matchAt s =
     (strings_HasPrefix s ''Payload/'' \<and>
      takeWhile (\<lambda>c. c \<noteq> CHR ''/'') (drop 8 s) \<noteq> [] \<and>
      strings_HasPrefix (dropWhile (\<lambda>c. c \<noteq> CHR ''/'') (drop 8 s)) ''/Info.plist'')"

fun reInfoPlist_MatchString :: "string \<Rightarrow> bool" where
  "reInfoPlist_MatchString [] = False"
| "reInfoPlist_MatchString (c # cs) =
     (reInfoPlist_matchAt (c # cs) \<or> reInfoPlist_MatchString cs)"

section \<open>The classification pass\<close>

text \<open>
  parser.go, lines 111-123: three variables, nil at first, and one loop over
  \<open>reader.File\<close> in container order. The \<open>switch\<close> takes the first case that holds and
  assigns the entry to that variable; nothing leaves the loop early.
\<close>

record members =
  xmlFile :: "zipFile option"
  plistFile :: "zipFile option"
  iosIconFile :: "zipFile option"

definition no_members :: members where
  "no_members = \<lparr>xmlFile = None, plistFile = None, iosIconFile = None\<rparr>"

definition classify_step :: "members \<Rightarrow> zipFile \<Rightarrow> members" where
  "classify_step m f =
     (if File_Name f = ''AndroidManifest.xml'' then m\<lparr>xmlFile := Some f\<rparr>
      else if reInfoPlist_MatchString (File_Name f) then m\<lparr>plistFile := Some f\<rparr>
      else if strings_Contains (File_Name f) ''Info.plist'' then m\<lparr>plistFile := Some f\<rparr>
      else if strings_Contains (File_Name f) ''AppIcon60x60'' then m\<lparr>iosIconFile := Some f\<rparr>
      else m)"

definition classify :: "zipFile list \<Rightarrow> members" where
  "classify fs = foldl classify_step no_members fs"

text \<open>
  The same loop in the earlier version (the unnamed source file, lines 66-76), which has
  no case for a name that merely contains \<open>Info.plist\<close>.
\<close>

definition classify_step_v0 :: "members \<Rightarrow> zipFile \<Rightarrow> members" where
  "classify_step_v0 m f =
     (if File_Name f = ''AndroidManifest.xml'' then m\<lparr>xmlFile := Some f\<rparr>
      else if reInfoPlist_MatchString (File_Name f) then m\<lparr>plistFile := Some f\<rparr>
      else if strings_Contains (File_Name f) ''AppIcon60x60'' then m\<lparr>iosIconFile := Some f\<rparr>
      else m)"

definition classify_v0 :: "zipFile list \<Rightarrow> members" where
  "classify_v0 fs = foldl classify_step_v0 no_members fs"

text \<open>Which entries qualify for which slot, read off the \<open>switch\<close>.\<close>

definition isManifest :: "zipFile \<Rightarrow> bool" where
  "isManifest f = (File_Name f = ''AndroidManifest.xml'')"

definition isPlist :: "zipFile \<Rightarrow> bool" where
  "isPlist f =
     (File_Name f \<noteq> ''AndroidManifest.xml'' \<and>
      (reInfoPlist_MatchString (File_Name f) \<or> strings_Contains (File_Name f) ''Info.plist''))"

definition isPlist_v0 :: "zipFile \<Rightarrow> bool" where
  "isPlist_v0 f =
     (File_Name f \<noteq> ''AndroidManifest.xml'' \<and> reInfoPlist_MatchString (File_Name f))"

definition isIcon :: "zipFile \<Rightarrow> bool" where
  "isIcon f =
     (File_Name f \<noteq> ''AndroidManifest.xml'' \<and>
      \<not> reInfoPlist_MatchString (File_Name f) \<and>
      \<not> strings_Contains (File_Name f) ''Info.plist'' \<and>
      strings_Contains (File_Name f) ''AppIcon60x60'')"

definition isIcon_v0 :: "zipFile \<Rightarrow> bool" where
  "isIcon_v0 f =
     (File_Name f \<noteq> ''AndroidManifest.xml'' \<and>
      \<not> reInfoPlist_MatchString (File_Name f) \<and>
      strings_Contains (File_Name f) ''AppIcon60x60'')"

text \<open>The first and the last element of a list, when it has one.\<close>

definition firstOf :: "'a list \<Rightarrow> 'a option" where
  "firstOf xs = (case xs of [] \<Rightarrow> None | x # _ \<Rightarrow> Some x)"

definition lastOf :: "'a list \<Rightarrow> 'a option" where
  "lastOf xs = (case rev xs of [] \<Rightarrow> None | x # _ \<Rightarrow> Some x)"

section \<open>parseIpaIcon\<close>

text \<open>
  parser.go, lines 309-324. A nil entry is refused first. An entry that cannot be opened
  returns the error of \<open>Open\<close>. Otherwise the stream goes through
  \<open>iospng.PngRevertOptimization\<close> (line 321). The call stands alone as a statement: its
  error result is not bound to a variable, and there is no \<open>recover\<close>, so a panic inside
  it ends \<open>parseIpaIcon\<close>. When it returns, the function returns what \<open>png.Decode\<close>
  returns on the bytes written.
\<close>

definition parseIpaIcon ::
  "world \<Rightarrow> zipFile option \<Rightarrow> (error + image) outcome \<times> event list" where
  "parseIpaIcon W iconFile =
     (case iconFile of
        None \<Rightarrow> (Return (Inl (ErrorsNew ''Icon is not found'')), [])
      | Some f \<Rightarrow>
          (case File_Open f of
             Inl err \<Rightarrow> (Return (Inl err), [EntryOpen (File_Name f)])
           | Inr rc \<Rightarrow>
               (case iospng_PngRevertOptimization W rc of
                  Panic e \<Rightarrow> (Panic e, [EntryOpen (File_Name f), PngRevert (File_Name f)])
                | Return (w, err) \<Rightarrow>
                    (Return (png_Decode W w),
                     [EntryOpen (File_Name f), PngRevert (File_Name f), PngDecode]))))"

text \<open>
  The earlier version of the function (the unnamed source file, lines 192-204) returns the
  raw bytes of the entry and decodes nothing.
\<close>

definition parseIpaIcon_v0 :: "zipFile option \<Rightarrow> (error + bytes) \<times> event list" where
  "parseIpaIcon_v0 iconFile =
     (case iconFile of
        None \<Rightarrow> (Inl (ErrorsNew ''Icon is not found''), [])
      | Some f \<Rightarrow>
          (case File_Open f of
             Inl err \<Rightarrow> (Inl err, [EntryOpen (File_Name f)])
           | Inr rc \<Rightarrow>
               (case readErr rc of
                  Some err \<Rightarrow> (Inl err, [EntryOpen (File_Name f), EntryReadAll (File_Name f)])
                | None \<Rightarrow> (Inr (data rc), [EntryOpen (File_Name f), EntryReadAll (File_Name f)]))))"

section \<open>parseIpaFile\<close>

text \<open>
  parser.go, lines 300-304. The guard tests only that \<open>CFBundlePrimaryIcon\<close> is there.
  \<open>CFBundleIconFiles\<close> is then read and asserted to be a \<open>[]interface{}\<close>, and every
  element asserted to be a \<open>string\<close>; both assertions are of the panicking form. The
  loop body assigns every element to \<open>info.IconFileName\<close> in turn.
\<close>

fun iconFileLoop :: "string \<Rightarrow> iface list \<Rightarrow> string outcome" where
  "iconFileLoop cur [] = Return cur"
| "iconFileLoop cur (v # vs) =
     (case v of
        GoString s \<Rightarrow> iconFileLoop s vs
      | _ \<Rightarrow> Panic InterfaceConversion)"

definition iconFileName :: "(string \<rightharpoonup> (string \<rightharpoonup> iface)) \<Rightarrow> string outcome" where
  "iconFileName icons =
     (case icons ''CFBundlePrimaryIcon'' of
        None \<Rightarrow> Return []
      | Some primary \<Rightarrow>
          (case primary ''CFBundleIconFiles'' of
             Some (GoSlice vs) \<Rightarrow> iconFileLoop [] vs
           | _ \<Rightarrow> Panic InterfaceConversion))"

text \<open>parser.go, lines 289-306: the record built from a decoded property list.\<close>

definition ipaInfo :: "iosPlist \<Rightarrow> appInfo outcome" where
  "ipaInfo p =
     (case iconFileName (CFBundleIcons p) of
        Panic e \<Rightarrow> Panic e
      | Return icon \<Rightarrow>
          Return (new_appInfo
            \<lparr>Name := (if CFBundleDisplayName p = [] then CFBundleName p
                       else CFBundleDisplayName p),
             PackageName := CFBundleIdentifier p,
             Version := CFBundleShortVersion p,
             VersionCode := CFBundleVersion p,
             VersionName := CFBundleShortVersion p,
             LanchActivity := CFBundleExecutable p,
             IconFileName := icon\<rparr>))"

text \<open>parser.go, lines 267-307.\<close>

definition parseIpaFile ::
  "world \<Rightarrow> zipFile option \<Rightarrow> (error + appInfo) outcome \<times> event list" where
  "parseIpaFile W plist =
     (case plist of
        None \<Rightarrow> (Return (Inl (ErrorsNew ''not zip file, info.plist is not found'')), [])
      | Some f \<Rightarrow>
          (case File_Open f of
             Inl err \<Rightarrow> (Return (Inl err), [EntryOpen (File_Name f)])
           | Inr rc \<Rightarrow>
               (case readErr rc of
                  Some err \<Rightarrow>
                    (Return (Inl err), [EntryOpen (File_Name f), EntryReadAll (File_Name f)])
                | None \<Rightarrow>
                    (case plist_Decode W (data rc) of
                       Inl err \<Rightarrow>
                         (Return (Inl err),
                          [EntryOpen (File_Name f), EntryReadAll (File_Name f), PlistDecode])
                     | Inr p \<Rightarrow>
                         (case ipaInfo p of
                            Panic e \<Rightarrow>
                              (Panic e,
                               [EntryOpen (File_Name f), EntryReadAll (File_Name f), PlistDecode])
                          | Return info \<Rightarrow>
                              (Return (Inr info),
                               [EntryOpen (File_Name f), EntryReadAll (File_Name f),
                                PlistDecode]))))))"

section \<open>The Android functions\<close>

text \<open>parser.go, lines 179-202.\<close>

definition parseAndroidManifest ::
  "world \<Rightarrow> zipFile \<Rightarrow> (error + androidManifest) \<times> event list" where
  "parseAndroidManifest W f =
     (case File_Open f of
        Inl err \<Rightarrow> (Inl err, [EntryOpen (File_Name f)])
      | Inr rc \<Rightarrow>
          (case readErr rc of
             Some err \<Rightarrow> (Inl err, [EntryOpen (File_Name f), EntryReadAll (File_Name f)])
           | None \<Rightarrow>
               (case androidbinary_NewXMLFile W (data rc) of
                  Inl err \<Rightarrow>
                    (Inl err,
                     [EntryOpen (File_Name f), EntryReadAll (File_Name f), BinaryXmlDecode])
                | Inr xmlContent \<Rightarrow>
                    (xml_Decode W xmlContent,
                     [EntryOpen (File_Name f), EntryReadAll (File_Name f), BinaryXmlDecode,
                      XmlDecode]))))"

text \<open>
  parser.go, lines 225-233: for every activity in document order, the inner loop stops at
  the first filter with the MAIN action and the LAUNCHER category and assigns the
  activity's name; the outer loop goes on.
\<close>

definition isLauncher :: "intentFilter \<Rightarrow> bool" where
  "isLauncher flt =
     (action_Name flt = ''android.intent.action.MAIN'' \<and>
      category_Name flt = ''android.intent.category.LAUNCHER'')"

fun launchLoop :: "string \<Rightarrow> activity list \<Rightarrow> string" where
  "launchLoop cur [] = cur"
| "launchLoop cur (a # as) =
     launchLoop (if list_ex isLauncher (Filter a) then activity_Name a else cur) as"

text \<open>parser.go, lines 204-235.\<close>

definition apkInfo :: "androidManifest \<Rightarrow> appInfo" where
  "apkInfo manifest =
     new_appInfo
       \<lparr>PackageName := Package manifest,
        Version := manifest_VersionName manifest,
        Build := manifest_VersionCode manifest,
        SDKMinVersion := sdk_Min (SDKVersion manifest),
        SDKTargetVersion := sdk_Target (SDKVersion manifest),
        VersionCode := manifest_VersionCode manifest,
        VersionName := manifest_VersionName manifest,
        LanchActivity := launchLoop [] (manifest_Activities manifest)\<rparr>"

definition parseApkFile :: "world \<Rightarrow> zipFile option \<Rightarrow> (error + appInfo) \<times> event list" where
  "parseApkFile W xml =
     (case xml of
        None \<Rightarrow> (Inl (ErrorsNew ''AndroidManifest.xml is not found''), [])
      | Some f \<Rightarrow>
          (case parseAndroidManifest W f of
             (Inl err, t) \<Rightarrow> (Inl err, t)
           | (Inr manifest, t) \<Rightarrow> (Inr (apkInfo manifest), t)))"

text \<open>
  parser.go, lines 253-262: the label read from the output of \<open>aapt dump badging\<close>.
  \<open>strings.Split\<close> never returns an empty slice, so both length tests hold always and
  \<open>data[1]\<close> and \<open>temp[1]\<close> are read whenever the output is not empty; an index beyond the
  slice is a run-time panic. \<open>strings.Replace(_, "'", "", -1)\<close> deletes every quote.
\<close>

definition quote :: char where
  "quote = CHR 0x27"

definition badgingLabel :: "string \<Rightarrow> bytes \<Rightarrow> string outcome" where
  "badgingLabel label resp =
     (if 0 < length resp then
        (if 0 < length (strings_Split resp ''launchable-activity'') then
           (case strings_Split resp ''launchable-activity'' of
              _ # d1 # _ \<Rightarrow>
                (if 0 < length (strings_Split d1 (''label='' @ [quote])) then
                   (case strings_Split d1 (''label='' @ [quote]) of
                      _ # t1 # _ \<Rightarrow>
                        (case strings_Split t1 [quote] of
                           t0 # _ \<Rightarrow> Return (filter (\<lambda>c. c \<noteq> quote) t0)
                         | [] \<Rightarrow> Panic IndexOutOfRange)
                    | _ \<Rightarrow> Panic IndexOutOfRange)
                 else Return label)
            | _ \<Rightarrow> Panic IndexOutOfRange)
         else Return label)
      else Return label)"

text \<open>parser.go, lines 237-265. The icon is asked for at density 720.\<close>

definition parseApkIconAndLabel ::
  "world \<Rightarrow> string \<Rightarrow> (error + image \<times> string) outcome \<times> event list" where
  "parseApkIconAndLabel W name =
     (case apk_OpenFile W name of
        Inl err \<Rightarrow> (Return (Inl err), [ApkOpenFile name])
      | Inr pkg \<Rightarrow>
          (case pkg_Icon pkg 720 of
             None \<Rightarrow> (Return (Inl (ErrorsNew ''Icon is not found'')), [ApkOpenFile name, ApkIcon])
           | Some icon \<Rightarrow>
               (case badgingLabel (pkg_Label pkg) (aapt_Output W name) of
                  Panic e \<Rightarrow> (Panic e, [ApkOpenFile name, ApkIcon, ApkLabel, AaptDump name])
                | Return label \<Rightarrow>
                    (Return (Inr (icon, label)),
                     [ApkOpenFile name, ApkIcon, ApkLabel, AaptDump name]))))"

section \<open>NewAppParser\<close>

text \<open>
  parser.go, lines 127-146, the branch for the extension \<open>.apk\<close>. The error of
  \<open>parseApkFile\<close> is bound to \<open>err\<close> and overwritten by the next statement without
  having been read; \<open>info\<close> is nil when that call failed, and \<open>info.Name = label\<close>
  then dereferences it. An error of \<open>parseApkIconAndLabel\<close> clears the icon and is
  itself cleared, so the branch returns \<open>info, nil\<close>.
\<close>

definition androidBranch ::
  "world \<Rightarrow> string \<Rightarrow> fileInfo \<Rightarrow> members \<Rightarrow> (error + appInfo) outcome \<times> event list" where
  "androidBranch W name stat m =
     (case parseApkFile W (xmlFile m) of
        (r, t1) \<Rightarrow>
          (case parseApkIconAndLabel W name of
             (Panic e, t2) \<Rightarrow> (Panic e, t1 @ t2)
           | (Return il, t2) \<Rightarrow>
               (case r of
                  Inl err \<Rightarrow> (Panic NilPointerDereference, t1 @ t2)
                | Inr info \<Rightarrow>
                    (case il of
                       Inl err \<Rightarrow>
                         (Return (Inr (info\<lparr>Name := [], Size := stat_Size stat\<rparr>)), t1 @ t2)
                     | Inr (icon, label) \<Rightarrow>
                         (Return (Inr (info
                            \<lparr>Name := label, Size := stat_Size stat,
                             Base64 := base64_EncodeToString W (png_Encode W icon)\<rparr>)),
                          t1 @ t2 @ [PngEncode])))))"

text \<open>
  parser.go, lines 155-161: a second loop over all entries; every entry whose name
  contains \<open>info.IconFileName\<close> replaces the icon candidate.
\<close>

definition iconOverride :: "string \<Rightarrow> zipFile option \<Rightarrow> zipFile list \<Rightarrow> zipFile option" where
  "iconOverride wanted cand fs =
     foldl (\<lambda>cur f. if strings_Contains (File_Name f) wanted then Some f else cur) cand fs"

text \<open>
  parser.go, lines 148-174, the branch for \<open>.ipa\<close> and \<open>.zip\<close>. An error of
  \<open>parseIpaFile\<close> is returned. An error of \<open>parseIpaIcon\<close> is printed only; icon,
  base64 text and size are set when there is none. A panic of either call ends the branch.
\<close>

definition iosBranch ::
  "world \<Rightarrow> fileInfo \<Rightarrow> zipFile list \<Rightarrow> members \<Rightarrow> (error + appInfo) outcome \<times> event list" where
  "iosBranch W stat fs m =
     (case parseIpaFile W (plistFile m) of
        (Panic e, t1) \<Rightarrow> (Panic e, t1)
      | (Return (Inl err), t1) \<Rightarrow> (Return (Inl err), t1)
      | (Return (Inr info), t1) \<Rightarrow>
          (case parseIpaIcon W (iconOverride (IconFileName info) (iosIconFile m) fs) of
             (Panic e, t3) \<Rightarrow>
               (Panic e, t1 @ map (\<lambda>f. IconScan (File_Name f)) fs @ t3)
           | (Return (Inl err), t3) \<Rightarrow>
               (Return (Inr info), t1 @ map (\<lambda>f. IconScan (File_Name f)) fs @ t3)
           | (Return (Inr icon), t3) \<Rightarrow>
               (Return (Inr (info
                  \<lparr>Icon := Some icon,
                   Base64 := base64_EncodeToString W (png_Encode W icon),
                   Size := stat_Size stat\<rparr>)),
                t1 @ map (\<lambda>f. IconScan (File_Name f)) fs @ t3 @ [PngEncode])))"

text \<open>
  parser.go, lines 91-177. The file is opened, its size read, the zip directory read and
  all entries classified; only then is the extension of the file's name looked at
  (\<open>filepath.Ext(stat.Name())\<close>, line 125).
\<close>

definition NewAppParser :: "world \<Rightarrow> string \<Rightarrow> (error + appInfo) outcome \<times> event list" where
  "NewAppParser W name =
     (case os_Open W name of
        Inl err \<Rightarrow> (Return (Inl err), [OsOpen name])
      | Inr file \<Rightarrow>
          (case file_Stat file of
             Inl err \<Rightarrow> (Return (Inl err), [OsOpen name, FileStat])
           | Inr stat \<Rightarrow>
               (case zip_NewReader file of
                  Inl err \<Rightarrow> (Return (Inl err), [OsOpen name, FileStat, ZipNewReader])
                | Inr fs \<Rightarrow>
                    (case (if filepath_Ext (stat_Name stat) = ''.apk''
                           then androidBranch W name stat (classify fs)
                           else if filepath_Ext (stat_Name stat) = ''.ipa'' \<or>
                                   filepath_Ext (stat_Name stat) = ''.zip''
                           then iosBranch W stat fs (classify fs)
                           else (Return (Inl (ErrorsNew ''unknown platform'')), [])) of
                       (r, t) \<Rightarrow>
                         (r, [OsOpen name, FileStat, ZipNewReader] @
                             map (\<lambda>f. Classified (File_Name f)) fs @
                             [FilepathExt (stat_Name stat)] @ t)))))"

text \<open>
  An event that opens, reads or decodes a member of the container, or calls one of the
  resource and image collaborators.
\<close>

fun touches :: "event \<Rightarrow> bool" where
  "touches (OsOpen _) = False"
| "touches FileStat = False"
| "touches ZipNewReader = False"
| "touches (Classified _) = False"
| "touches (FilepathExt _) = False"
| "touches (IconScan _) = False"
| "touches _ = True"

section \<open>Example containers\<close>

text \<open>
  Concrete inputs on which the functions above are evaluated below. \<open>member\<close> is an entry
  that opens and reads without error; \<open>container\<close> is an open file whose zip directory
  lists the given entries; in \<open>bare\<close> no file exists and every decoder refuses its input.
\<close>

definition member :: "string \<Rightarrow> bytes \<Rightarrow> zipFile" where
  "member n bs = \<lparr>File_Name = n, File_Open = Inr \<lparr>data = bs, readErr = None\<rparr>\<rparr>"

definition container :: "string \<Rightarrow> int \<Rightarrow> zipFile list \<Rightarrow> osFile" where
  "container n sz fs =
     \<lparr>file_Stat = Inr \<lparr>stat_Name = n, stat_Size = sz\<rparr>, zip_NewReader = Inr fs\<rparr>"

definition bare :: world where
  "bare =
     \<lparr>os_Open = (\<lambda>n. Inl (External ''open: no such file or directory'')),
      androidbinary_NewXMLFile = (\<lambda>b. Inl (External ''androidbinary: invalid chunk'')),
      xml_Decode = (\<lambda>b. Inl (External ''EOF'')),
      plist_Decode = (\<lambda>b. Inl (External ''plist: invalid property list'')),
      apk_OpenFile = (\<lambda>n. Inl (External ''open: no such file or directory'')),
      aapt_Output = (\<lambda>n. []),
      iospng_PngRevertOptimization = (\<lambda>s. Return (data s, None)),
      png_Decode = (\<lambda>b. Inl (External ''png: invalid format'')),
      png_Encode = (\<lambda>i. []),
      base64_EncodeToString = (\<lambda>b. b)\<rparr>"

definition twoIcons :: "zipFile list" where
  "twoIcons =
     [member ''Payload/App.app/AppIcon60x60@2x.png'' [],
      member ''Payload/App.app/AppIcon60x60@3x.png'' []]"

definition twoPlists :: "zipFile list" where
  "twoPlists =
     [member ''Payload/App.app/Info.plist'' [],
      member ''Payload/App.app/Frameworks/Lib.framework/Info.plist'' []]"

definition docxWorld :: world where
  "docxWorld =
     bare\<lparr>os_Open := (\<lambda>n. if n = ''report.docx''
        then Inr (container ''report.docx'' 4096
               [member ''word/document.xml'' [], member ''docProps/Info.plist'' []])
        else Inl (External ''open: no such file or directory''))\<rparr>"

definition notZipWorld :: world where
  "notZipWorld =
     bare\<lparr>os_Open := (\<lambda>n. if n = ''notes.txt''
        then Inr \<lparr>file_Stat = Inr \<lparr>stat_Name = ''notes.txt'', stat_Size = 12\<rparr>,
                  zip_NewReader = Inl (External ''zip: not a valid zip file'')\<rparr>
        else Inl (External ''open: no such file or directory''))\<rparr>"

definition lockedIcon :: zipFile where
  "lockedIcon =
     \<lparr>File_Name = ''Payload/App.app/AppIcon60x60@2x.png'',
      File_Open = Inl (External ''zip: unsupported compression algorithm'')\<rparr>"

definition decodesAll :: world where
  "decodesAll = bare\<lparr>png_Decode := (\<lambda>b. Inr (Image b))\<rparr>"

text \<open>
  An icon entry that opens and holds a PNG signature followed by an \<open>IHDR\<close> chunk of
  length zero (written \<open>PNG-IHDR0\<close>), and a world in which the normaliser panics on
  exactly these bytes while PNG decoding accepts every input.
\<close>

definition emptyHeaderIcon :: zipFile where
  "emptyHeaderIcon = member ''Payload/App.app/AppIcon60x60@2x.png'' ''PNG-IHDR0''"

definition revertPanics :: world where
  "revertPanics =
     decodesAll\<lparr>iospng_PngRevertOptimization :=
       (\<lambda>s. if data s = ''PNG-IHDR0''
            then Panic (CollaboratorPanic ''iospng.PngRevertOptimization'')
            else Return (data s, None))\<rparr>"

text \<open>
  An iOS archive \<open>app.ipa\<close> with three entries, and the worlds in which its property list
  decodes to a given record.
\<close>

definition helloPlist :: iosPlist where
  "helloPlist =
     \<lparr>CFBundleName = ''HelloWorld'', CFBundleDisplayName = [], CFBundleVersion = ''1.0'',
      CFBundleShortVersion = ''1.0'', CFBundleIdentifier = ''com.kthcorp.helloworld'',
      CFBundleExecutable = ''HelloWorld'', CFBundleIcons = Map.empty\<rparr>"

definition plistEntry :: zipFile where
  "plistEntry = member ''Payload/App.app/Info.plist'' ''bplist00''"

definition ipaEntries :: "zipFile list" where
  "ipaEntries =
     [plistEntry,
      member ''Payload/App.app/AppIcon60x60@2x.png'' ''CgBI'',
      member ''Payload/App.app/embedded.mobileprovision'' []]"

definition plistWorld :: "iosPlist \<Rightarrow> world" where
  "plistWorld p =
     bare\<lparr>plist_Decode := (\<lambda>b. if b = ''bplist00'' then Inr p
                              else Inl (External ''plist: invalid property list'')),
          os_Open := (\<lambda>n. if n = ''app.ipa'' then Inr (container ''app.ipa'' 20480 ipaEntries)
                         else Inl (External ''open: no such file or directory''))\<rparr>"

definition iconFiles :: "iface \<Rightarrow> string \<rightharpoonup> (string \<rightharpoonup> iface)" where
  "iconFiles v = [''CFBundlePrimaryIcon'' \<mapsto> [''CFBundleIconFiles'' \<mapsto> v]]"

definition twoIconNames :: iosPlist where
  "twoIconNames =
     helloPlist\<lparr>CFBundleIcons :=
       iconFiles (GoSlice [GoString ''AppIcon29x29'', GoString ''AppIcon60x60''])\<rparr>"

definition iconNameOnly :: iosPlist where
  "iconNameOnly =
     helloPlist\<lparr>CFBundleIcons :=
       [''CFBundlePrimaryIcon'' \<mapsto> [''CFBundleIconName'' \<mapsto> GoString ''AppIcon'']]\<rparr>"

definition iconFilesString :: iosPlist where
  "iconFilesString = helloPlist\<lparr>CFBundleIcons := iconFiles (GoString ''AppIcon60x60'')\<rparr>"

definition iconFilesMixed :: iosPlist where
  "iconFilesMixed =
     helloPlist\<lparr>CFBundleIcons := iconFiles (GoSlice [GoString ''AppIcon29x29'', GoInt 60])\<rparr>"

text \<open>
  An Android archive \<open>app.apk\<close> with the given entries: the manifest bytes \<open>AXML\<close> decode
  to the given manifest, the resource table has an icon and the label \<open>HelloWorld\<close>, and
  \<open>aapt dump badging\<close> prints the given text. \<open>helloManifest\<close> declares a launcher
  activity, \<open>serviceManifest\<close> declares no activity at all.
\<close>

definition helloManifest :: androidManifest where
  "helloManifest =
     \<lparr>Package = ''com.example.helloworld'', manifest_VersionName = ''1.0'',
      manifest_VersionCode = ''1'', SDKVersion = \<lparr>sdk_Min = 21, sdk_Target = 28\<rparr>,
      manifest_UsesPermissions = [],
      manifest_Activities =
        [\<lparr>activity_Name = ''.MainActivity'', Exported = True,
          Filter = [\<lparr>action_Name = ''android.intent.action.MAIN'',
                     category_Name = ''android.intent.category.LAUNCHER''\<rparr>]\<rparr>]\<rparr>"

definition serviceManifest :: androidManifest where
  "serviceManifest = helloManifest\<lparr>manifest_Activities := []\<rparr>"

definition apkWorld :: "androidManifest \<Rightarrow> zipFile list \<Rightarrow> bytes \<Rightarrow> world" where
  "apkWorld manifest fs badging =
     bare\<lparr>os_Open := (\<lambda>n. if n = ''app.apk'' then Inr (container ''app.apk'' 1048576 fs)
                         else Inl (External ''open: no such file or directory'')),
          androidbinary_NewXMLFile := (\<lambda>b. if b = ''AXML'' then Inr ''<manifest/>''
                         else Inl (External ''androidbinary: invalid chunk'')),
          xml_Decode := (\<lambda>b. if b = ''<manifest/>'' then Inr manifest
                         else Inl (External ''EOF'')),
          apk_OpenFile := (\<lambda>n. if n = ''app.apk''
                         then Inr \<lparr>pkg_Icon = (\<lambda>d. Some (Image ''icon'')),
                                   pkg_Label = ''HelloWorld''\<rparr>
                         else Inl (External ''open: no such file or directory'')),
          aapt_Output := (\<lambda>n. badging),
          png_Encode := (\<lambda>i. case i of Image b \<Rightarrow> b)\<rparr>"

section \<open>Properties\<close>

text \<open>
  C9. Called with no entry (a nil \<open>*zip.File\<close>), the iOS icon step returns the error
  "Icon is not found" and does nothing else: its event list is empty, so no entry is
  opened, nothing is normalised and nothing is decoded. Both versions of the function
  behave so.
\<close>

theorem parseIpaIcon_nil:
  "parseIpaIcon W None = (Return (Inl IconNotFound), []) \<and>
   parseIpaIcon_v0 None = (Inl IconNotFound, [])"
  by (simp add: parseIpaIcon_def parseIpaIcon_v0_def)

subsection \<open>Strings and the classification pass\<close>

lemma lastOf_filter_snoc:
  "lastOf (filter P (xs @ [x])) = (if P x then Some x else lastOf (filter P xs))"
  by (simp add: lastOf_def)

lemma lastOf_Nil: "lastOf [] = None"
  by (simp add: lastOf_def)

lemma HasPrefix_append: "strings_HasPrefix s p = (\<exists>b. s = p @ b)"
  by (induction s p rule: strings_HasPrefix.induct) auto

lemma Contains_append: "strings_Contains s sub = (\<exists>a b. s = a @ sub @ b)"
proof (induction s)
  case Nil
  then show ?case by auto
next
  case (Cons c cs)
  show ?case
  proof
    assume "strings_Contains (c # cs) sub"
    then consider "strings_HasPrefix (c # cs) sub" | "strings_Contains cs sub" by auto
    then show "\<exists>a b. c # cs = a @ sub @ b"
    proof cases
      case 1
      then obtain b where "c # cs = sub @ b" by (auto simp: HasPrefix_append)
      then have "c # cs = [] @ sub @ b" by simp
      then show ?thesis by blast
    next
      case 2
      then obtain a b where "cs = a @ sub @ b" using Cons.IH by blast
      then have "c # cs = (c # a) @ sub @ b" by simp
      then show ?thesis by blast
    qed
  next
    assume "\<exists>a b. c # cs = a @ sub @ b"
    then obtain a b where ab: "c # cs = a @ sub @ b" by blast
    show "strings_Contains (c # cs) sub"
    proof (cases a)
      case Nil
      with ab have "strings_HasPrefix (c # cs) sub" by (auto simp: HasPrefix_append)
      then show ?thesis by simp
    next
      case (Cons a0 as)
      with ab have "cs = as @ sub @ b" by simp
      then have "strings_Contains cs sub" using Cons.IH by blast
      then show ?thesis by simp
    qed
  qed
qed

lemma matchAt_Contains:
  assumes "reInfoPlist_matchAt s"
  shows "strings_Contains s ''Info.plist''"
proof -
  let ?P = "\<lambda>c. c \<noteq> CHR ''/''"
  from assms obtain r where s: "s = ''Payload/'' @ r"
    by (auto simp: reInfoPlist_matchAt_def HasPrefix_append)
  then have d: "drop 8 s = r" by simp
  from assms d obtain b where b: "dropWhile ?P r = ''/Info.plist'' @ b"
    by (auto simp: reInfoPlist_matchAt_def HasPrefix_append)
  have "r = takeWhile ?P r @ dropWhile ?P r" by simp
  with b have "r = takeWhile ?P r @ ''/Info.plist'' @ b" by simp
  with s have "s = (''Payload/'' @ takeWhile ?P r @ ''/'') @ ''Info.plist'' @ b" by simp
  then show ?thesis unfolding Contains_append by blast
qed

lemma Contains_Cons: "strings_Contains cs sub \<Longrightarrow> strings_Contains (c # cs) sub"
  by simp

lemma MatchString_Contains:
  "reInfoPlist_MatchString s \<Longrightarrow> strings_Contains s ''Info.plist''"
proof (induction s)
  case Nil
  then show ?case by simp
next
  case (Cons c cs)
  from Cons.prems consider "reInfoPlist_matchAt (c # cs)" | "reInfoPlist_MatchString cs" by auto
  then show ?case
  proof cases
    case 1
    then show ?thesis by (rule matchAt_Contains)
  next
    case 2
    then have "strings_Contains cs ''Info.plist''" by (rule Cons.IH)
    then show ?thesis by (rule Contains_Cons)
  qed
qed

lemma manifest_name_no_plist: "\<not> strings_Contains ''AndroidManifest.xml'' ''Info.plist''"
  by simp

lemma isPlist_iff: "isPlist f = strings_Contains (File_Name f) ''Info.plist''"
  using MatchString_Contains [of "File_Name f"] manifest_name_no_plist
  by (auto simp: isPlist_def)

lemma classify_snoc: "classify (fs @ [f]) = classify_step (classify fs) f"
  by (simp add: classify_def)

lemma classify_v0_snoc: "classify_v0 (fs @ [f]) = classify_step_v0 (classify_v0 fs) f"
  by (simp add: classify_v0_def)

lemma classify_lastOf:
  "classify fs =
     \<lparr>xmlFile = lastOf (filter isManifest fs), plistFile = lastOf (filter isPlist fs),
      iosIconFile = lastOf (filter isIcon fs)\<rparr>"
proof (induction fs rule: rev_induct)
  case Nil
  show ?case by (simp add: classify_def no_members_def lastOf_Nil)
next
  case (snoc f fs)
  show ?case
    unfolding classify_snoc snoc.IH lastOf_filter_snoc
    by (simp add: classify_step_def isManifest_def isPlist_def isIcon_def)
qed

lemma classify_v0_lastOf:
  "classify_v0 fs =
     \<lparr>xmlFile = lastOf (filter isManifest fs), plistFile = lastOf (filter isPlist_v0 fs),
      iosIconFile = lastOf (filter isIcon_v0 fs)\<rparr>"
proof (induction fs rule: rev_induct)
  case Nil
  show ?case by (simp add: classify_v0_def no_members_def lastOf_Nil)
next
  case (snoc f fs)
  show ?case
    unfolding classify_v0_snoc snoc.IH lastOf_filter_snoc
    by (simp add: classify_step_v0_def isManifest_def isPlist_v0_def isIcon_v0_def)
qed

text \<open>
  C2, as the code has it. The loop assigns on every qualifying entry and never leaves
  early, so each slot ends with the last qualifying entry in container order (and is nil
  when there is none). This holds for the loop of parser.go and for the loop of the
  earlier version.
\<close>

theorem classify_keeps_last:
  "xmlFile (classify fs) = lastOf (filter isManifest fs) \<and>
   plistFile (classify fs) = lastOf (filter isPlist fs) \<and>
   iosIconFile (classify fs) = lastOf (filter isIcon fs) \<and>
   xmlFile (classify_v0 fs) = lastOf (filter isManifest fs) \<and>
   plistFile (classify_v0 fs) = lastOf (filter isPlist_v0 fs) \<and>
   iosIconFile (classify_v0 fs) = lastOf (filter isIcon_v0 fs)"
  by (simp add: classify_lastOf classify_v0_lastOf)

text \<open>
  C2 as stated fails: of two entries that both qualify as icon candidate, the second is
  kept, not the first.
\<close>

theorem classify_first_counterexample:
  "iosIconFile (classify twoIcons) = Some (member ''Payload/App.app/AppIcon60x60@3x.png'' []) \<and>
   firstOf (filter isIcon twoIcons) = Some (member ''Payload/App.app/AppIcon60x60@2x.png'' []) \<and>
   iosIconFile (classify twoIcons) \<noteq> firstOf (filter isIcon twoIcons)"
  by (simp add: classify_def classify_step_def no_members_def twoIcons_def member_def
      isIcon_def firstOf_def reInfoPlist_matchAt_def)

text \<open>
  C7, as the code has it. In parser.go the property-list slot takes every entry whose
  name contains \<open>Info.plist\<close> anywhere: the third case of the \<open>switch\<close> accepts what the
  pattern of the second case rejects. The slot holds the last such entry in container
  order, and stays nil exactly when no entry name contains \<open>Info.plist\<close>.
\<close>

theorem plist_slot_contains:
  "plistFile (classify fs) =
     lastOf (filter (\<lambda>f. strings_Contains (File_Name f) ''Info.plist'') fs)"
proof -
  have "isPlist = (\<lambda>f. strings_Contains (File_Name f) ''Info.plist'')"
    by (rule ext) (rule isPlist_iff)
  then show ?thesis by (simp add: classify_lastOf)
qed

text \<open>
  C7 as stated fails: an \<open>Info.plist\<close> nested two levels below \<open>Payload/\<close> does not match
  the pattern, yet it populates the slot (and here replaces the application's own
  property list).
\<close>

theorem plist_slot_counterexample:
  "plistFile (classify twoPlists) =
     Some (member ''Payload/App.app/Frameworks/Lib.framework/Info.plist'' []) \<and>
   \<not> reInfoPlist_MatchString ''Payload/App.app/Frameworks/Lib.framework/Info.plist''"
  by (simp add: classify_def classify_step_def no_members_def twoPlists_def member_def
      reInfoPlist_matchAt_def)

subsection \<open>Evaluation on the example containers\<close>

lemmas dispatch_defs =
  NewAppParser_def bare_def container_def member_def filepath_Ext_def classify_def
  classify_step_def no_members_def reInfoPlist_matchAt_def

lemmas android_defs =
  apkWorld_def androidBranch_def parseApkFile_def parseAndroidManifest_def
  parseApkIconAndLabel_def badgingLabel_def strings_Split_def

lemmas ios_defs =
  parseIpaFile_def plistWorld_def plistEntry_def ipaEntries_def ipaInfo_def iconFileName_def
  iconFiles_def helloPlist_def new_appInfo_def iosBranch_def iconOverride_def parseIpaIcon_def
  member_def

subsection \<open>The extension test\<close>

text \<open>
  C3, as the code has it. When the file opens, its size can be read and its zip directory
  can be read, and the extension of its name is none of \<open>.apk\<close>, \<open>.ipa\<close>, \<open>.zip\<close>, then
  \<open>NewAppParser\<close> returns the error "unknown platform". By then it has read the zip
  directory and classified every entry name, in container order; it has opened, read or
  decoded no entry and called no resource or image collaborator.
\<close>

theorem unknown_extension:
  assumes "os_Open W name = Inr file" and "file_Stat file = Inr stat"
    and "zip_NewReader file = Inr fs"
    and "filepath_Ext (stat_Name stat) \<noteq> ''.apk''"
    and "filepath_Ext (stat_Name stat) \<noteq> ''.ipa''"
    and "filepath_Ext (stat_Name stat) \<noteq> ''.zip''"
  shows "NewAppParser W name =
           (Return (Inl UnknownPlatform),
            [OsOpen name, FileStat, ZipNewReader] @ map (\<lambda>f. Classified (File_Name f)) fs @
            [FilepathExt (stat_Name stat)]) \<and>
         filter touches (snd (NewAppParser W name)) = []"
proof -
  have r: "NewAppParser W name =
           (Return (Inl UnknownPlatform),
            [OsOpen name, FileStat, ZipNewReader] @ map (\<lambda>f. Classified (File_Name f)) fs @
            [FilepathExt (stat_Name stat)])"
    using assms by (simp add: NewAppParser_def)
  have "filter touches (map (\<lambda>f. Classified (File_Name f)) fs) = []"
    by (induction fs) simp_all
  with r show ?thesis by simp
qed

text \<open>
  The theorem at \<open>report.docx\<close>, a zip container with two entries: all six hypotheses hold
  there, and so does the conclusion.
\<close>

theorem unknown_extension_witness:
  "os_Open docxWorld ''report.docx'' =
     Inr (container ''report.docx'' 4096
            [member ''word/document.xml'' [], member ''docProps/Info.plist'' []]) \<and>
   filepath_Ext ''report.docx'' = ''.docx'' \<and>
   NewAppParser docxWorld ''report.docx'' =
     (Return (Inl UnknownPlatform),
      [OsOpen ''report.docx'', FileStat, ZipNewReader, Classified ''word/document.xml'',
       Classified ''docProps/Info.plist'', FilepathExt ''report.docx'']) \<and>
   filter touches (snd (NewAppParser docxWorld ''report.docx'')) = []"
proof -
  let ?fs = "[member ''word/document.xml'' [], member ''docProps/Info.plist'' []]"
  let ?stat = "\<lparr>stat_Name = ''report.docx'', stat_Size = 4096\<rparr>"
  have h1: "os_Open docxWorld ''report.docx'' = Inr (container ''report.docx'' 4096 ?fs)"
    by (simp add: docxWorld_def)
  have h2: "file_Stat (container ''report.docx'' 4096 ?fs) = Inr ?stat"
    by (simp add: container_def)
  have h3: "zip_NewReader (container ''report.docx'' 4096 ?fs) = Inr ?fs"
    by (simp add: container_def)
  have e: "filepath_Ext ''report.docx'' = ''.docx''"
    by (simp add: filepath_Ext_def)
  have h4: "filepath_Ext (stat_Name ?stat) \<noteq> ''.apk''"
    and h5: "filepath_Ext (stat_Name ?stat) \<noteq> ''.ipa''"
    and h6: "filepath_Ext (stat_Name ?stat) \<noteq> ''.zip''"
    by (simp_all add: e)
  from unknown_extension [OF h1 h2 h3 h4 h5 h6] h1 e show ?thesis
    by (simp add: member_def)
qed

text \<open>
  C3 as stated fails twice. At \<open>report.docx\<close> both entries are classified before the
  extension is looked at. At \<open>notes.txt\<close>, which is not a zip container, the call fails
  with the zip reader's error and not with "unknown platform".
\<close>

theorem unknown_extension_counterexample:
  "NewAppParser docxWorld ''report.docx'' =
     (Return (Inl UnknownPlatform),
      [OsOpen ''report.docx'', FileStat, ZipNewReader, Classified ''word/document.xml'',
       Classified ''docProps/Info.plist'', FilepathExt ''report.docx'']) \<and>
   NewAppParser notZipWorld ''notes.txt'' =
     (Return (Inl (External ''zip: not a valid zip file'')),
      [OsOpen ''notes.txt'', FileStat, ZipNewReader])"
  by (simp add: dispatch_defs docxWorld_def notZipWorld_def)

subsection \<open>The iOS icon step\<close>

text \<open>
  C10, as the code has it. For a non-nil icon entry, \<open>parseIpaIcon\<close> returns the error of
  \<open>Open\<close> when the entry cannot be opened. When the entry opens and the
  revert-optimization step returns, the result is exactly what \<open>png.Decode\<close> returns on
  the bytes that step wrote, whatever error the step returned; when the step panics, so
  does \<open>parseIpaIcon\<close>. The error of the step has no influence: replacing it by any other
  leaves result and events as they are.
\<close>

theorem parseIpaIcon_result:
  "fst (parseIpaIcon W (Some f)) =
     (case File_Open f of
        Inl err \<Rightarrow> Return (Inl err)
      | Inr rc \<Rightarrow>
          (case iospng_PngRevertOptimization W rc of
             Panic p \<Rightarrow> Panic p
           | Return (w, err) \<Rightarrow> Return (png_Decode W w))) \<and>
   parseIpaIcon
     (W\<lparr>iospng_PngRevertOptimization :=
          (\<lambda>s. case iospng_PngRevertOptimization W s of
                 Panic p \<Rightarrow> Panic p
               | Return (w, err) \<Rightarrow> Return (w, e s))\<rparr>) (Some f) =
   parseIpaIcon W (Some f)"
  by (simp add: parseIpaIcon_def split: sum.splits outcome.splits prod.splits)

text \<open>
  C10 as stated fails for an entry that cannot be opened and for an entry on which the
  revert-optimization step panics: in worlds where PNG decoding accepts every input, the
  first call still fails, with the error of \<open>Open\<close>, and the second does not return at
  all; neither decodes anything.
\<close>

theorem parseIpaIcon_open_counterexample:
  "parseIpaIcon decodesAll (Some lockedIcon) =
     (Return (Inl (External ''zip: unsupported compression algorithm'')),
      [EntryOpen ''Payload/App.app/AppIcon60x60@2x.png'']) \<and>
   png_Decode decodesAll [] = Inr (Image []) \<and>
   parseIpaIcon revertPanics (Some emptyHeaderIcon) =
     (Panic (CollaboratorPanic ''iospng.PngRevertOptimization''),
      [EntryOpen ''Payload/App.app/AppIcon60x60@2x.png'',
       PngRevert ''Payload/App.app/AppIcon60x60@2x.png'']) \<and>
   png_Decode revertPanics ''PNG-IHDR0'' = Inr (Image ''PNG-IHDR0'')"
  by (simp add: parseIpaIcon_def decodesAll_def revertPanics_def lockedIcon_def
      emptyHeaderIcon_def member_def bare_def)

subsection \<open>The record built from a property list\<close>

lemma lastOf_Cons:
  "lastOf (x # xs) = (case lastOf xs of None \<Rightarrow> Some x | Some y \<Rightarrow> Some y)"
  by (cases "rev xs") (simp_all add: lastOf_def)

lemma iconFileLoop_strings:
  "iconFileLoop cur (map GoString names) =
     Return (case lastOf names of None \<Rightarrow> cur | Some n \<Rightarrow> n)"
proof (induction names arbitrary: cur)
  case Nil
  show ?case by (simp add: lastOf_def)
next
  case (Cons n ns)
  show ?case by (simp add: Cons.IH lastOf_Cons split: option.splits)
qed

lemma parseIpaFile_decoded:
  assumes "File_Open f = Inr rc" and "readErr rc = None"
    and "plist_Decode W (data rc) = Inr p"
  shows "fst (parseIpaFile W (Some f)) =
           (case ipaInfo p of Panic e \<Rightarrow> Panic e | Return info \<Rightarrow> Return (Inr info))"
  using assms by (simp add: parseIpaFile_def split: outcome.splits)

text \<open>
  What \<open>parseIpaFile\<close> copies from a decoded property list, whenever it returns a record:
  name, identifier, short version and, into \<open>VersionCode\<close>, the bundle version. The field
  \<open>Build\<close> is not assigned and keeps its zero value.
\<close>

lemma ipaInfo_fields:
  assumes "ipaInfo p = Return info"
  shows "Name info =
           (if CFBundleDisplayName p = [] then CFBundleName p else CFBundleDisplayName p)"
    and "PackageName info = CFBundleIdentifier p"
    and "Version info = CFBundleShortVersion p"
    and "VersionCode info = CFBundleVersion p"
    and "Build info = []"
  using assms by (auto simp: ipaInfo_def new_appInfo_def split: outcome.splits)

text \<open>
  C4, as the code has it. For a property list that decodes: when
  \<open>CFBundleIcons.CFBundlePrimaryIcon.CFBundleIconFiles\<close> is a list of strings, the call
  returns a record whose icon file name is the last string of that list (and empty for
  the empty list); when \<open>CFBundlePrimaryIcon\<close> is absent, the call returns a record with
  an empty icon file name.
\<close>

theorem ipa_icon_file_name:
  assumes "File_Open f = Inr rc" and "readErr rc = None"
    and "plist_Decode W (data rc) = Inr p"
  shows "(CFBundleIcons p ''CFBundlePrimaryIcon'' = Some primary \<and>
          primary ''CFBundleIconFiles'' = Some (GoSlice (map GoString names)) \<longrightarrow>
            (\<exists>info. fst (parseIpaFile W (Some f)) = Return (Inr info) \<and>
                    IconFileName info = (case lastOf names of None \<Rightarrow> [] | Some n \<Rightarrow> n))) \<and>
         (CFBundleIcons p ''CFBundlePrimaryIcon'' = None \<longrightarrow>
            (\<exists>info. fst (parseIpaFile W (Some f)) = Return (Inr info) \<and> IconFileName info = []))"
  unfolding parseIpaFile_decoded [OF assms]
  by (simp add: ipaInfo_def iconFileName_def iconFileLoop_strings)

text \<open>
  The theorem at two property lists of \<open>app.ipa\<close>: one that lists \<open>AppIcon29x29\<close> and
  \<open>AppIcon60x60\<close> as icon files, and one without \<open>CFBundleIcons\<close>.
\<close>

theorem ipa_icon_file_name_witness:
  "File_Open plistEntry = Inr \<lparr>data = ''bplist00'', readErr = None\<rparr> \<and>
   plist_Decode (plistWorld twoIconNames) ''bplist00'' = Inr twoIconNames \<and>
   CFBundleIcons twoIconNames ''CFBundlePrimaryIcon'' =
     Some [''CFBundleIconFiles'' \<mapsto> GoSlice [GoString ''AppIcon29x29'', GoString ''AppIcon60x60'']] \<and>
   (\<exists>info. fst (parseIpaFile (plistWorld twoIconNames) (Some plistEntry)) = Return (Inr info) \<and>
           IconFileName info = ''AppIcon60x60'') \<and>
   plist_Decode (plistWorld helloPlist) ''bplist00'' = Inr helloPlist \<and>
   CFBundleIcons helloPlist ''CFBundlePrimaryIcon'' = None \<and>
   (\<exists>info. fst (parseIpaFile (plistWorld helloPlist) (Some plistEntry)) = Return (Inr info) \<and>
           IconFileName info = [])"
proof -
  let ?rc = "\<lparr>data = ''bplist00'', readErr = None\<rparr>"
  let ?names = "[''AppIcon29x29'', ''AppIcon60x60'']"
  let ?primary = "[''CFBundleIconFiles'' \<mapsto> GoSlice (map GoString ?names)]"
  have h1: "File_Open plistEntry = Inr ?rc"
    by (simp add: plistEntry_def member_def)
  have h2: "readErr ?rc = None"
    by simp
  have d1: "plist_Decode (plistWorld twoIconNames) (data ?rc) = Inr twoIconNames"
    and d2: "plist_Decode (plistWorld helloPlist) (data ?rc) = Inr helloPlist"
    by (simp_all add: plistWorld_def)
  have i1: "CFBundleIcons twoIconNames ''CFBundlePrimaryIcon'' = Some ?primary"
    by (simp add: twoIconNames_def iconFiles_def)
  have i2: "?primary ''CFBundleIconFiles'' = Some (GoSlice (map GoString ?names))"
    by simp
  have i3: "CFBundleIcons helloPlist ''CFBundlePrimaryIcon'' = None"
    by (simp add: helloPlist_def)
  have l: "lastOf ?names = Some ''AppIcon60x60''"
    by (simp add: lastOf_def)
  from ipa_icon_file_name [OF h1 h2 d1, of ?primary ?names] i1 i2 l
  have a: "\<exists>info. fst (parseIpaFile (plistWorld twoIconNames) (Some plistEntry)) =
             Return (Inr info) \<and> IconFileName info = ''AppIcon60x60''"
    by simp
  from ipa_icon_file_name [OF h1 h2 d2] i3
  have b: "\<exists>info. fst (parseIpaFile (plistWorld helloPlist) (Some plistEntry)) =
             Return (Inr info) \<and> IconFileName info = []"
    by simp
  from a b h1 d1 d2 i1 i3 show ?thesis
    by simp
qed

text \<open>
  C4 as stated fails twice. With the icon files \<open>AppIcon29x29\<close>, \<open>AppIcon60x60\<close> the icon
  file name is the second string, not the first. And with no \<open>CFBundleIcons\<close> the icon
  candidate of the classification pass, \<open>AppIcon60x60@2x.png\<close>, is not what
  \<open>NewAppParser\<close> hands to icon extraction: every entry name contains the empty icon
  file name, so the last entry of the container is opened instead.
\<close>

theorem icon_file_first_counterexample:
  "fst (parseIpaFile (plistWorld twoIconNames) (Some plistEntry)) =
     Return (Inr \<lparr>Name = ''HelloWorld'', PackageName = ''com.kthcorp.helloworld'',
       Version = ''1.0'', Build = [], Base64 = [], VersionName = ''1.0'',
       VersionCode = ''1.0'', SDKMinVersion = 0, SDKTargetVersion = 0, UsesPermissions = [],
       Activities = [], LanchActivity = ''HelloWorld'', Icon = None, Size = 0,
       IconFileName = ''AppIcon60x60''\<rparr>) \<and>
   iosIconFile (classify ipaEntries) =
     Some (member ''Payload/App.app/AppIcon60x60@2x.png'' ''CgBI'') \<and>
   snd (NewAppParser (plistWorld helloPlist) ''app.ipa'') =
     [OsOpen ''app.ipa'', FileStat, ZipNewReader,
      Classified ''Payload/App.app/Info.plist'',
      Classified ''Payload/App.app/AppIcon60x60@2x.png'',
      Classified ''Payload/App.app/embedded.mobileprovision'',
      FilepathExt ''app.ipa'', EntryOpen ''Payload/App.app/Info.plist'',
      EntryReadAll ''Payload/App.app/Info.plist'', PlistDecode,
      IconScan ''Payload/App.app/Info.plist'',
      IconScan ''Payload/App.app/AppIcon60x60@2x.png'',
      IconScan ''Payload/App.app/embedded.mobileprovision'',
      EntryOpen ''Payload/App.app/embedded.mobileprovision'',
      PngRevert ''Payload/App.app/embedded.mobileprovision'', PngDecode]"
  by (simp add: dispatch_defs ios_defs twoIconNames_def)

text \<open>
  C5 at the property list of the HelloWorld application. The claim holds for name,
  identifier and version, but the bundle version \<open>1.0\<close> is stored in \<open>VersionCode\<close> only:
  \<open>Build\<close> is the empty string in the record returned.
\<close>

theorem ipa_build_left_empty:
  "fst (parseIpaFile (plistWorld helloPlist) (Some plistEntry)) =
     Return (Inr \<lparr>Name = ''HelloWorld'', PackageName = ''com.kthcorp.helloworld'',
       Version = ''1.0'', Build = [], Base64 = [], VersionName = ''1.0'',
       VersionCode = ''1.0'', SDKMinVersion = 0, SDKTargetVersion = 0, UsesPermissions = [],
       Activities = [], LanchActivity = ''HelloWorld'', Icon = None, Size = 0,
       IconFileName = []\<rparr>) \<and>
   CFBundleVersion helloPlist = ''1.0''"
  by (simp add: ios_defs)

text \<open>
  C8 at three property lists in which \<open>CFBundlePrimaryIcon\<close> is present: one with the key
  \<open>CFBundleIconName\<close> and no \<open>CFBundleIconFiles\<close>, one whose \<open>CFBundleIconFiles\<close> is a
  string, one whose \<open>CFBundleIconFiles\<close> holds a number. In each, \<open>parseIpaFile\<close> stops
  with a failed type assertion and returns nothing.
\<close>

theorem icon_navigation_panics:
  "fst (parseIpaFile (plistWorld iconNameOnly) (Some plistEntry)) = Panic InterfaceConversion \<and>
   fst (parseIpaFile (plistWorld iconFilesString) (Some plistEntry)) = Panic InterfaceConversion \<and>
   fst (parseIpaFile (plistWorld iconFilesMixed) (Some plistEntry)) = Panic InterfaceConversion"
  by (simp add: ios_defs iconNameOnly_def iconFilesString_def iconFilesMixed_def)

subsection \<open>The Android branch\<close>

lemma genSplit_no_sep:
  "\<not> strings_Contains s sep \<Longrightarrow> genSplit sep cur 0 s = [rev cur @ s]"
  by (induction s arbitrary: cur) simp_all

lemma Split_no_sep: "\<not> strings_Contains s sep \<Longrightarrow> strings_Split s sep = [s]"
  by (simp add: strings_Split_def genSplit_no_sep)

text \<open>
  Output of \<open>aapt\<close> that is not empty and has no \<open>launchable-activity\<close> in it splits into
  one piece, and reading the second piece is out of range.
\<close>

lemma badgingLabel_no_section:
  "resp \<noteq> [] \<Longrightarrow> \<not> strings_Contains resp ''launchable-activity'' \<Longrightarrow>
   badgingLabel label resp = Panic IndexOutOfRange"
  by (simp add: badgingLabel_def Split_no_sep)

text \<open>
  A failed \<open>parseApkFile\<close> never becomes the result of the branch: whatever the icon and
  label step does, the branch ends in a panic.
\<close>

lemma androidBranch_manifest_error:
  "fst (parseApkFile W (xmlFile m)) = Inl err \<Longrightarrow>
   \<exists>e. fst (androidBranch W name stat m) = Panic e"
  by (auto simp: androidBranch_def split: prod.splits outcome.splits sum.splits)

lemma NewAppParser_manifest_error:
  assumes "os_Open W name = Inr file" and "file_Stat file = Inr stat"
    and "zip_NewReader file = Inr fs"
    and "filepath_Ext (stat_Name stat) = ''.apk''"
    and "fst (parseApkFile W (xmlFile (classify fs))) = Inl err"
  shows "\<exists>e. fst (NewAppParser W name) = Panic e"
proof -
  from assms(5) obtain e
    where e: "fst (androidBranch W name stat (classify fs)) = Panic e"
    using androidBranch_manifest_error by blast
  obtain t where "androidBranch W name stat (classify fs) = (Panic e, t)"
    using e by (cases "androidBranch W name stat (classify fs)") simp
  with assms(1-4) have "fst (NewAppParser W name) = Panic e"
    by (simp add: NewAppParser_def)
  then show ?thesis by blast
qed

text \<open>
  An error returned by the icon steps is recovered in both branches: the record of the
  manifest or property list is returned, without icon. A panic of the iOS icon step is
  not recovered.
\<close>

lemma androidBranch_icon_error:
  "fst (parseApkFile W (xmlFile m)) = Inr info \<Longrightarrow>
   fst (parseApkIconAndLabel W name) = Return (Inl err) \<Longrightarrow>
   fst (androidBranch W name stat m) =
     Return (Inr (info\<lparr>Name := [], Size := stat_Size stat\<rparr>))"
  by (auto simp: androidBranch_def split: prod.splits outcome.splits sum.splits)

lemma iosBranch_icon_error:
  "fst (parseIpaFile W (plistFile m)) = Return (Inr info) \<Longrightarrow>
   fst (parseIpaIcon W (iconOverride (IconFileName info) (iosIconFile m) fs)) =
     Return (Inl err) \<Longrightarrow>
   fst (iosBranch W stat fs m) = Return (Inr info)"
  by (auto simp: iosBranch_def split: prod.splits outcome.splits sum.splits)

lemma iosBranch_icon_panic:
  "fst (parseIpaFile W (plistFile m)) = Return (Inr info) \<Longrightarrow>
   fst (parseIpaIcon W (iconOverride (IconFileName info) (iosIconFile m) fs)) = Panic e \<Longrightarrow>
   fst (iosBranch W stat fs m) = Panic e"
  by (auto simp: iosBranch_def split: prod.splits outcome.splits sum.splits)

lemma iosBranch_plist_error:
  "fst (parseIpaFile W (plistFile m)) = Return (Inl err) \<Longrightarrow>
   fst (iosBranch W stat fs m) = Return (Inl err)"
  by (auto simp: iosBranch_def split: prod.splits outcome.splits sum.splits)

text \<open>
  C1 at \<open>app.apk\<close> without a manifest entry, and at \<open>app.apk\<close> whose manifest bytes the
  binary-XML decoder refuses. In both, \<open>NewAppParser\<close> does not return the manifest
  error: it stops with a nil pointer dereference at \<open>info.Name = label\<close>.
\<close>

theorem apk_manifest_failure_panics:
  "fst (NewAppParser (apkWorld helloManifest [member ''classes.dex'' [], member ''resources.arsc'' []] [])
         ''app.apk'') = Panic NilPointerDereference \<and>
   fst (NewAppParser (apkWorld helloManifest [member ''AndroidManifest.xml'' ''junk''] []) ''app.apk'') =
     Panic NilPointerDereference"
  by (simp add: dispatch_defs android_defs)

text \<open>
  C6 at \<open>app.apk\<close> with a good manifest that declares no activity and a resolvable icon,
  when \<open>aapt dump badging\<close> prints a report without a \<open>launchable-activity\<close> line: resolving the label override
  fails, and the call stops with an index out of range instead of returning the record.
\<close>

theorem badging_without_launcher_panics:
  "fst (NewAppParser
         (apkWorld serviceManifest [member ''AndroidManifest.xml'' ''AXML'']
            ''package: name='com.example.helloworld' versionCode='1' versionName='1.0' '')
         ''app.apk'') = Panic IndexOutOfRange"
  by (simp add: dispatch_defs android_defs)

end
